theory Spec2Isabelle
  imports Main
begin

section \<open>JavaScript values as the A2A route handler sees them\<close>

text \<open>
  The handler of \<^verbatim>\<open>a2aAgentRoute\<close> (planner-agent.ts) works on values that come out of
  \<^verbatim>\<open>JSON.parse\<close>: the request body, and everything it reads from it. A parsed value is
  a \<open>json\<close>; the members of an object are listed in property enumeration order, with
  distinct keys. A JavaScript value that may also be \<^verbatim>\<open>undefined\<close> is a \<open>jsval\<close>, where
  \<open>None\<close> is \<^verbatim>\<open>undefined\<close>.

  The handler never computes with a number: it only tests a number for zero, prints it
  and copies it. So a number is kept as its canonical rendering, the text that
  \<^verbatim>\<open>Number.prototype.toString\<close> and \<^verbatim>\<open>JSON.stringify\<close> give for it (\<^verbatim>\<open>1\<close>, \<^verbatim>\<open>-32602\<close>,
  \<^verbatim>\<open>1.5\<close>, \<^verbatim>\<open>1e+21\<close>); both zeros render as \<^verbatim>\<open>0\<close>, and JSON has no \<^verbatim>\<open>NaN\<close>. Strings are
  \<open>string\<close>s, one \<open>char\<close> per code unit.
\<close>

datatype json =
    JNull
  | JBool bool
  | JNum string
  | JStr string
  | JArr "json list"
  | JObj "(string \<times> json) list"

type_synonym jsval = "json option"

text \<open>
  A thrown value is any JavaScript value. An \<^verbatim>\<open>Error\<close> instance is seen by the handler
  only through its \<^verbatim>\<open>message\<close> property, so it is the object with that property. The
  wording of a message raised by the runtime is the engine's; no statement below depends
  on it.
\<close>

type_synonym exn = jsval

definition Error :: "string \<Rightarrow> exn" where
  "Error m = Some (JObj [(''message'', JStr m)])"

definition TypeError :: "string \<Rightarrow> exn" where
  "TypeError m = Error m"

text \<open>Truthiness: \<^verbatim>\<open>!v\<close> is \<open>\<not> truthy v\<close>.\<close>

fun truthy :: "jsval \<Rightarrow> bool" where
  "truthy None = False"
| "truthy (Some JNull) = False"
| "truthy (Some (JBool b)) = b"
| "truthy (Some (JNum n)) = (n \<noteq> ''0'')"
| "truthy (Some (JStr s)) = (s \<noteq> [])"
| "truthy (Some (JArr xs)) = True"
| "truthy (Some (JObj kvs)) = True"

text \<open>\<^verbatim>\<open>a || b\<close> where evaluating \<open>b\<close> has no effect.\<close>

definition js_or :: "jsval \<Rightarrow> jsval \<Rightarrow> jsval" where
  "js_or a b = (if truthy a then a else b)"

text \<open>\<^verbatim>\<open>typeof v === "object"\<close>: objects, arrays and \<^verbatim>\<open>null\<close>.\<close>

fun typeof_object :: "jsval \<Rightarrow> bool" where
  "typeof_object (Some (JObj kvs)) = True"
| "typeof_object (Some (JArr xs)) = True"
| "typeof_object (Some JNull) = True"
| "typeof_object v = False"

text \<open>
  \<^verbatim>\<open>v.k\<close>, for the property names the handler reads (none of them is a built-in
  property of a string, number, boolean, array or plain object): reading from
  \<^verbatim>\<open>undefined\<close> or \<^verbatim>\<open>null\<close> raises a TypeError, an object gives its own member, every
  other value gives \<^verbatim>\<open>undefined\<close>.
\<close>

fun get_prop :: "jsval \<Rightarrow> string \<Rightarrow> exn + jsval" where
  "get_prop None k = Inl (TypeError (''Cannot read properties of undefined (reading '' @ [CHR 0x27] @ k @ [CHR 0x27] @ '')''))"
| "get_prop (Some JNull) k = Inl (TypeError (''Cannot read properties of null (reading '' @ [CHR 0x27] @ k @ [CHR 0x27] @ '')''))"
| "get_prop (Some (JObj kvs)) k = Inr (map_of kvs k)"
| "get_prop (Some v) k = Inr None"

text \<open>\<^verbatim>\<open>v?.k\<close>: as \<^verbatim>\<open>v.k\<close>, but \<^verbatim>\<open>undefined\<close> when \<open>v\<close> is \<^verbatim>\<open>undefined\<close> or \<^verbatim>\<open>null\<close>.\<close>

fun get_opt :: "jsval \<Rightarrow> string \<Rightarrow> jsval" where
  "get_opt (Some (JObj kvs)) k = map_of kvs k"
| "get_opt v k = None"

subsection \<open>Printing\<close>

definition join_strings :: "string \<Rightarrow> string list \<Rightarrow> string" where
  "join_strings sep ss = (case ss of [] \<Rightarrow> [] | s # rest \<Rightarrow> s @ concat (map (\<lambda>t. sep @ t) rest))"

definition digit_char :: "nat \<Rightarrow> char" where
  "digit_char d = char_of (of_char (CHR ''0'') + d)"

definition hex_char :: "nat \<Rightarrow> char" where
  "hex_char d = (if d < 10 then digit_char d else char_of (of_char (CHR ''a'') + (d - 10)))"

text \<open>\<^verbatim>\<open>QuoteJSONString\<close>: the escapes of \<^verbatim>\<open>JSON.stringify\<close>.\<close>

definition escape_char :: "char \<Rightarrow> string" where
  "escape_char c =
     (if c = CHR 0x08 then [CHR 0x5C, CHR ''b'']
      else if c = CHR 0x09 then [CHR 0x5C, CHR ''t'']
      else if c = CHR 0x0A then [CHR 0x5C, CHR ''n'']
      else if c = CHR 0x0C then [CHR 0x5C, CHR ''f'']
      else if c = CHR 0x0D then [CHR 0x5C, CHR ''r'']
      else if c = CHR 0x22 then [CHR 0x5C, CHR 0x22]
      else if c = CHR 0x5C then [CHR 0x5C, CHR 0x5C]
      else if (of_char c :: nat) < 32
        then [CHR 0x5C, CHR ''u'', CHR ''0'', CHR ''0'', hex_char (of_char c div 16), hex_char (of_char c mod 16)]
      else [c])"

definition quote :: "string \<Rightarrow> string" where
  "quote s = [CHR 0x22] @ concat (map escape_char s) @ [CHR 0x22]"

text \<open>\<^verbatim>\<open>JSON.stringify(v)\<close> of a parsed value, without indentation.\<close>

fun stringify :: "json \<Rightarrow> string"
  and stringify_elements :: "json list \<Rightarrow> string list"
  and stringify_members :: "(string \<times> json) list \<Rightarrow> string list" where
  "stringify JNull = ''null''"
| "stringify (JBool b) = (if b then ''true'' else ''false'')"
| "stringify (JNum n) = n"
| "stringify (JStr s) = quote s"
| "stringify (JArr xs) = ''['' @ join_strings '','' (stringify_elements xs) @ '']''"
| "stringify (JObj kvs) = ''{'' @ join_strings '','' (stringify_members kvs) @ ''}''"
| "stringify_elements [] = []"
| "stringify_elements (x # xs) = stringify x # stringify_elements xs"
| "stringify_members [] = []"
| "stringify_members ((k, v) # kvs) = (quote k @ '':'' @ stringify v) # stringify_members kvs"

text \<open>\<^verbatim>\<open>JSON.stringify(v)\<close> of a value that may be \<^verbatim>\<open>undefined\<close>: then the result is too.\<close>

definition JSON_stringify :: "jsval \<Rightarrow> jsval" where
  "JSON_stringify v = (case v of None \<Rightarrow> None | Some j \<Rightarrow> Some (JStr (stringify j)))"

text \<open>
  \<^verbatim>\<open>ToString\<close>, as a template literal and \<^verbatim>\<open>Array.prototype.join\<close> apply it. An array
  prints as its elements joined by commas, \<^verbatim>\<open>null\<close> elements as nothing. A plain object
  prints as \<^verbatim>\<open>[object Object]\<close>; when it has a member named \<^verbatim>\<open>toString\<close> (which cannot
  be called, coming from JSON) the conversion raises a TypeError.
\<close>

fun to_string :: "json \<Rightarrow> exn + string"
  and to_string_elements :: "json list \<Rightarrow> exn + string list" where
  "to_string JNull = Inr ''null''"
| "to_string (JBool b) = Inr (if b then ''true'' else ''false'')"
| "to_string (JNum n) = Inr n"
| "to_string (JStr s) = Inr s"
| "to_string (JArr xs) =
     (case to_string_elements xs of Inl e \<Rightarrow> Inl e | Inr ss \<Rightarrow> Inr (join_strings '','' ss))"
| "to_string (JObj kvs) =
     (if map_of kvs ''toString'' \<noteq> None
      then Inl (TypeError ''Cannot convert object to primitive value'')
      else Inr ''[object Object]'')"
| "to_string_elements [] = Inr []"
| "to_string_elements (x # xs) =
     (case (if x = JNull then Inr [] else to_string x) of
        Inl e \<Rightarrow> Inl e
      | Inr s \<Rightarrow> (case to_string_elements xs of Inl e \<Rightarrow> Inl e | Inr ss \<Rightarrow> Inr (s # ss)))"

text \<open>\<^verbatim>\<open>`${v}`\<close> of a value that may be \<^verbatim>\<open>undefined\<close>.\<close>

definition template :: "jsval \<Rightarrow> exn + string" where
  "template v = (case v of None \<Rightarrow> Inr ''undefined'' | Some j \<Rightarrow> to_string j)"

text \<open>
  \<^verbatim>\<open>xs.join(sep)\<close> of an array whose elements may be \<^verbatim>\<open>undefined\<close>: these and \<^verbatim>\<open>null\<close>
  print as nothing, the others by \<^verbatim>\<open>ToString\<close>, in order; the first conversion that
  raises ends the join.
\<close>

fun join_element :: "jsval \<Rightarrow> exn + string" where
  "join_element None = Inr []"
| "join_element (Some JNull) = Inr []"
| "join_element (Some v) = to_string v"

fun join_elements :: "jsval list \<Rightarrow> exn + string list" where
  "join_elements [] = Inr []"
| "join_elements (v # vs) =
     (case join_element v of
        Inl e \<Rightarrow> Inl e
      | Inr s \<Rightarrow> (case join_elements vs of Inl e \<Rightarrow> Inl e | Inr ss \<Rightarrow> Inr (s # ss)))"

definition array_join :: "string \<Rightarrow> jsval list \<Rightarrow> exn + string" where
  "array_join sep vs = (case join_elements vs of Inl e \<Rightarrow> Inl e | Inr ss \<Rightarrow> Inr (join_strings sep ss))"

section \<open>The handler's collaborators\<close>

text \<open>The one message the handler passes to the agent: \<^verbatim>\<open>{ role, content }\<close>.\<close>

record mastra_message =
  role :: jsval
  content :: string

text \<open>
  Modelled from the spec: the type of what the framework's \<^verbatim>\<open>agent.generate\<close> resolves
  to is not declared in this repository. The spec gives it a primary text field and an
  optional ordered sequence of tool-invocation results; the handler reads them as
  \<^verbatim>\<open>response.text\<close> and \<^verbatim>\<open>response.toolResults\<close>.
\<close>

record agent_response =
  response_text :: jsval
  toolResults :: "json list option"

text \<open>
  \<^verbatim>\<open>agent.generate(conversation)\<close>, awaited: it resolves to a response (\<open>Inr\<close>) or
  rejects with any value (\<open>Inl\<close>).
\<close>

type_synonym agent = "mastra_message list \<Rightarrow> exn + agent_response"

text \<open>
  What the handler takes from its surroundings: \<^verbatim>\<open>mastra.getAgent\<close> (which may find no
  agent, or throw), \<^verbatim>\<open>randomUUID\<close> (the value of the \<open>k\<close>-th call made while one request
  is handled, counting from 0) and the clock (\<^verbatim>\<open>new Date().toISOString()\<close>).
\<close>

record env =
  getAgent :: "string \<Rightarrow> exn + agent option"
  randomUUID :: "nat \<Rightarrow> string"
  now :: string

text \<open>The request: the path parameter and what \<^verbatim>\<open>await c.req.json()\<close> gives (it rejects
  when the body does not parse).\<close>

record request =
  agentId :: string
  json_body :: "exn + json"

text \<open>\<^verbatim>\<open>c.json(value, status)\<close>: the status and the JSON value the body text denotes.\<close>

record http_response =
  status :: nat
  body :: json

datatype log_entry = ConsoleLog string jsval | ConsoleError string exn

text \<open>
  What one run of the handler does: it returns a response or throws (\<open>Inl\<close>), after the
  calls of \<^verbatim>\<open>agent.generate\<close> and the console lines listed.
\<close>

record outcome =
  returned :: "exn + http_response"
  generate_calls :: "mastra_message list list"
  console :: "log_entry list"

section \<open>The handler\<close>

text \<open>
  An object literal as \<^verbatim>\<open>c.json\<close> serializes it: a property whose value is
  \<^verbatim>\<open>undefined\<close> is left out.
\<close>

fun obj_members :: "(string \<times> jsval) list \<Rightarrow> (string \<times> json) list" where
  "obj_members [] = []"
| "obj_members ((k, None) # kvs) = obj_members kvs"
| "obj_members ((k, Some v) # kvs) = (k, v) # obj_members kvs"

definition obj :: "(string \<times> jsval) list \<Rightarrow> json" where
  "obj kvs = JObj (obj_members kvs)"

definition str :: "string \<Rightarrow> jsval" where
  "str s = Some (JStr s)"

text \<open>The error responses of lines 55-66, 71-81, 86-96, 103-113 and 118-129.\<close>

definition rpc_error :: "nat \<Rightarrow> jsval \<Rightarrow> string \<Rightarrow> string \<Rightarrow> http_response" where
  "rpc_error st ident code msg =
     \<lparr>status = st,
      body = obj [(''jsonrpc'', str ''2.0''), (''id'', ident),
                  (''error'', Some (obj [(''code'', Some (JNum code)), (''message'', str msg)]))]\<rparr>"

datatype validation =
    Responded http_response
  | Raised exn
  | Accepted agent jsval jsval

text \<open>
  Lines 46-130. The first component is \<^verbatim>\<open>requestId\<close> as it stands when the phase ends;
  \<open>Accepted agent message configuration\<close> means that no check returned.
  Destructuring \<^verbatim>\<open>null\<close> raises; on any other parsed value a missing property is
  \<^verbatim>\<open>undefined\<close>.
\<close>

definition validate :: "env \<Rightarrow> request \<Rightarrow> jsval \<times> validation" where
  \<open>validate c req =
     (case json_body req of
        Inl e \<Rightarrow> (Some JNull, Raised e)
      | Inr b \<Rightarrow>
          if b = JNull
          then (Some JNull, Raised (TypeError ''Cannot destructure property jsonrpc of body as it is null.''))
          else
            let jsonrpc = get_opt (Some b) ''jsonrpc'';
                ident = get_opt (Some b) ''id'';
                method = get_opt (Some b) ''method'';
                params = get_opt (Some b) ''params'';
                requestId = ident
            in
            if jsonrpc \<noteq> str ''2.0'' \<or> \<not> truthy requestId
            then (requestId, Responded (rpc_error 400 (js_or requestId (Some JNull)) ''-32600''
                    ''Invalid Request: jsonrpc must be "2.0" and id is required''))
            else if method \<noteq> str ''message/send''
            then (case template method of
                    Inl e \<Rightarrow> (requestId, Raised e)
                  | Inr m \<Rightarrow> (requestId, Responded (rpc_error 400 requestId ''-32601''
                      (''Invalid method: expected "message/send", got "'' @ m @ ''"''))))
            else
              (case getAgent c (agentId req) of
                 Inl e \<Rightarrow> (requestId, Raised e)
               | Inr None \<Rightarrow> (requestId, Responded (rpc_error 404 requestId ''-32602''
                   (''Agent '' @ [CHR 0x27] @ agentId req @ [CHR 0x27] @ '' not found'')))
               | Inr (Some agent) \<Rightarrow>
                   let p = js_or params (Some (JObj []));
                       message = get_opt p ''message'';
                       configuration = get_opt p ''configuration''
                   in
                   if \<not> truthy message \<or> \<not> typeof_object message
                   then (requestId, Responded (rpc_error 400 requestId ''-32602''
                           ''Invalid params: message is required''))
                   else if get_opt message ''kind'' \<noteq> str ''message''
                           \<or> \<not> truthy (get_opt message ''role'')
                           \<or> \<not> truthy (get_opt message ''parts'')
                   then (requestId, Responded (rpc_error 400 requestId ''-32602''
                           ''Invalid message: must have kind "message", role, and parts array''))
                   else (requestId, Accepted agent message configuration)))\<close>

text \<open>
  \<^verbatim>\<open>v || randomUUID()\<close>, with the number of calls of \<^verbatim>\<open>randomUUID\<close> made so far: the
  call is made only when \<open>v\<close> is falsy.
\<close>

definition or_uuid :: "env \<Rightarrow> jsval \<Rightarrow> nat \<Rightarrow> jsval \<times> nat" where
  "or_uuid c v n = (if truthy v then (v, n) else (str (randomUUID c n), Suc n))"

text \<open>The callback of \<^verbatim>\<open>message.parts.map\<close>, lines 140-144.\<close>

definition part_text :: "json \<Rightarrow> exn + jsval" where
  "part_text part =
     (case get_prop (Some part) ''kind'' of
        Inl e \<Rightarrow> Inl e
      | Inr kind \<Rightarrow>
          if kind = str ''text'' then Inr (get_opt (Some part) ''text'')
          else if kind = str ''data'' then Inr (JSON_stringify (get_opt (Some part) ''data''))
          else Inr (str []))"

fun map_parts :: "json list \<Rightarrow> exn + jsval list" where
  "map_parts [] = Inr []"
| "map_parts (p # ps) =
     (case part_text p of
        Inl e \<Rightarrow> Inl e
      | Inr v \<Rightarrow> (case map_parts ps of Inl e \<Rightarrow> Inl e | Inr vs \<Rightarrow> Inr (v # vs)))"

text \<open>
  Lines 139-145, \<^verbatim>\<open>message.parts.map(...).join("\n") || ""\<close>, of a truthy
  \<^verbatim>\<open>message.parts\<close>: a value that is not an array has no \<^verbatim>\<open>map\<close> to call.
\<close>

definition mastra_content :: "jsval \<Rightarrow> exn + string" where
  "mastra_content parts =
     (case parts of
        Some (JArr ps) \<Rightarrow>
          (case map_parts ps of
             Inl e \<Rightarrow> Inl e
           | Inr vs \<Rightarrow>
               (case array_join [CHR 0x0A] vs of
                  Inl e \<Rightarrow> Inl e
                | Inr s \<Rightarrow> Inr (if s \<noteq> [] then s else [])))
      | _ \<Rightarrow> Inl (TypeError ''message.parts.map is not a function''))"

text \<open>
  Lines 154-169: one artifact per tool result, in order; the \<open>i\<close>-th takes the
  \<open>(n + i)\<close>-th UUID. Reading \<^verbatim>\<open>result.name\<close> of a \<^verbatim>\<open>null\<close> result raises.
\<close>

fun push_artifacts :: "env \<Rightarrow> nat \<Rightarrow> json list \<Rightarrow> exn + json list" where
  "push_artifacts c n [] = Inr []"
| "push_artifacts c n (r # rs) =
     (case get_prop (Some r) ''name'' of
        Inl e \<Rightarrow> Inl e
      | Inr nm \<Rightarrow>
          (case push_artifacts c (Suc n) rs of
             Inl e \<Rightarrow> Inl e
           | Inr arts \<Rightarrow>
               Inr (obj [(''artifactId'', str (randomUUID c n)),
                         (''name'', js_or nm (str ''ToolResult'')),
                         (''parts'', Some (JArr [obj [(''kind'', str ''data''), (''data'', Some r)]]))]
                    # arts)))"

definition build_artifacts :: "env \<Rightarrow> nat \<Rightarrow> json list option \<Rightarrow> exn + json list" where
  "build_artifacts c n trs =
     (case trs of
        None \<Rightarrow> Inr []
      | Some rs \<Rightarrow> if length rs > 0 then push_artifacts c n rs else Inr [])"

text \<open>Lines 172-192, given the identifiers and the reply text already computed.\<close>

definition history :: "jsval \<Rightarrow> jsval \<Rightarrow> jsval \<Rightarrow> jsval \<Rightarrow> jsval \<Rightarrow> json list" where
  "history message messageId currentTaskId agentText responseMessageId =
     [obj [(''kind'', str ''message''),
           (''role'', get_opt message ''role''),
           (''parts'', get_opt message ''parts''),
           (''messageId'', messageId),
           (''taskId'', currentTaskId)],
      obj [(''kind'', str ''message''),
           (''role'', str ''agent''),
           (''parts'', Some (JArr [obj [(''kind'', str ''text''), (''text'', agentText)]])),
           (''messageId'', responseMessageId),
           (''taskId'', currentTaskId)]]"

text \<open>Lines 195-220.\<close>

definition a2aResponse ::
  "env \<Rightarrow> jsval \<Rightarrow> jsval \<Rightarrow> jsval \<Rightarrow> jsval \<Rightarrow> jsval \<Rightarrow> json list \<Rightarrow> json list \<Rightarrow> json" where
  "a2aResponse c requestId currentTaskId conversationContext agentText responseMessageId artifacts hist =
     obj [(''jsonrpc'', str ''2.0''),
          (''id'', requestId),
          (''result'', Some (obj
             [(''id'', currentTaskId),
              (''contextId'', conversationContext),
              (''status'', Some (obj
                 [(''state'', str ''completed''),
                  (''timestamp'', str (now c)),
                  (''message'', Some (obj
                     [(''messageId'', responseMessageId),
                      (''role'', str ''agent''),
                      (''parts'', Some (JArr [obj [(''kind'', str ''text''), (''text'', agentText)]])),
                      (''kind'', str ''message'')]))])),
              (''artifacts'', Some (JArr artifacts)),
              (''history'', Some (JArr hist)),
              (''kind'', str ''task'')]))]"

text \<open>Lines 224-234: the console line of a non-blocking request that names a webhook.\<close>

definition non_blocking_log :: "jsval \<Rightarrow> log_entry list" where
  "non_blocking_log configuration =
     (if get_opt configuration ''blocking'' = Some (JBool False)
      then (if truthy (get_opt (get_opt configuration ''pushNotificationConfig'') ''url'')
            then [ConsoleLog ''Non-blocking request with webhook:''
                    (get_opt (get_opt configuration ''pushNotificationConfig'') ''url'')]
            else [])
      else [])"

text \<open>
  Lines 132-236, for a request that passed every check. The calls of \<^verbatim>\<open>randomUUID\<close>
  are made in the order of the source: task id, context id, the reply's message id,
  the artifacts, then the inbound message's id.
\<close>

definition respond ::
  "env \<Rightarrow> agent \<Rightarrow> jsval \<Rightarrow> jsval \<Rightarrow> jsval
     \<Rightarrow> (exn + http_response) \<times> mastra_message list list \<times> log_entry list" where
  "respond c agent message configuration requestId =
     (let (currentTaskId, n1) = or_uuid c (get_opt message ''taskId'') 0;
          (conversationContext, n2) = or_uuid c (get_opt message ''contextId'') n1
      in
      case mastra_content (get_opt message ''parts'') of
        Inl e \<Rightarrow> (Inl e, [], [])
      | Inr text \<Rightarrow>
          let mastraMessage = \<lparr>role = get_opt message ''role'', content = text\<rparr> in
          (case agent [mastraMessage] of
             Inl e \<Rightarrow> (Inl e, [[mastraMessage]], [])
           | Inr response \<Rightarrow>
               let agentText = js_or (response_text response) (str []);
                   responseMessageId = str (randomUUID c n2)
               in
               (case build_artifacts c (Suc n2) (toolResults response) of
                  Inl e \<Rightarrow> (Inl e, [[mastraMessage]], [])
                | Inr artifacts \<Rightarrow>
                    let (messageId, n3) =
                          or_uuid c (get_opt message ''messageId'') (Suc n2 + length artifacts)
                    in
                    (Inr \<lparr>status = 200,
                          body = a2aResponse c requestId currentTaskId conversationContext
                                   agentText responseMessageId artifacts
                                   (history message messageId currentTaskId agentText responseMessageId)\<rparr>,
                     [[mastraMessage]],
                     non_blocking_log configuration))))"

text \<open>
  The body of the \<^verbatim>\<open>try\<close> block: \<^verbatim>\<open>requestId\<close> when it ends, how it ends (a response
  returned, or a value raised), and its effects.
\<close>

definition try_block ::
  "env \<Rightarrow> request \<Rightarrow> jsval \<times> (exn + http_response) \<times> mastra_message list list \<times> log_entry list" where
  "try_block c req =
     (case validate c req of
        (requestId, Responded r) \<Rightarrow> (requestId, Inr r, [], [])
      | (requestId, Raised e) \<Rightarrow> (requestId, Inl e, [], [])
      | (requestId, Accepted agent message configuration) \<Rightarrow>
          (requestId, respond c agent message configuration requestId))"

text \<open>
  The handler: the \<^verbatim>\<open>try\<close> block and the \<^verbatim>\<open>catch\<close> of lines 237-254. The catch logs
  the value caught, then reads its \<^verbatim>\<open>message\<close>; when that read raises, nothing catches
  it and the handler throws.
\<close>

definition handler :: "env \<Rightarrow> request \<Rightarrow> outcome" where
  "handler c req =
     (case try_block c req of
        (requestId, Inr r, calls, logged) \<Rightarrow>
          \<lparr>returned = Inr r, generate_calls = calls, console = logged\<rparr>
      | (requestId, Inl error, calls, logged) \<Rightarrow>
          (case get_prop error ''message'' of
             Inl e \<Rightarrow>
               \<lparr>returned = Inl e, generate_calls = calls,
                console = logged @ [ConsoleError ''A2A Agent Route Error:'' error]\<rparr>
           | Inr details \<Rightarrow>
               \<lparr>returned = Inr
                  \<lparr>status = 500,
                   body = obj [(''jsonrpc'', str ''2.0''),
                               (''id'', requestId),
                               (''error'', Some (obj
                                  [(''code'', Some (JNum ''-32603'')),
                                   (''message'', str ''Internal error''),
                                   (''data'', Some (obj [(''details'', details)]))]))]\<rparr>,
                generate_calls = calls,
                console = logged @ [ConsoleError ''A2A Agent Route Error:'' error]\<rparr>))"

text \<open>Reading a response: the value at a path of member names.\<close>

fun at :: "json \<Rightarrow> string list \<Rightarrow> jsval" where
  "at j [] = Some j"
| "at (JObj kvs) (k # ks) = (case map_of kvs k of None \<Rightarrow> None | Some v \<Rightarrow> at v ks)"
| "at j (k # ks) = None"

section \<open>Reading requests and outcomes\<close>

text \<open>The status of the response returned, if the handler returned one.\<close>

definition response_status :: "outcome \<Rightarrow> nat option" where
  "response_status out = (case returned out of Inl e \<Rightarrow> None | Inr r \<Rightarrow> Some (status r))"

text \<open>The value at a path of the response body; \<open>None\<close> when there is none.\<close>

definition response_at :: "outcome \<Rightarrow> string list \<Rightarrow> jsval" where
  "response_at out path = (case returned out of Inl e \<Rightarrow> None | Inr r \<Rightarrow> at (body r) path)"

definition elements :: "jsval \<Rightarrow> json list" where
  "elements v = (case v of Some (JArr xs) \<Rightarrow> xs | _ \<Rightarrow> [])"

text \<open>A member of the parsed body, as line 51 destructures it.\<close>

definition body_member :: "request \<Rightarrow> string \<Rightarrow> jsval" where
  "body_member req k = (case json_body req of Inl e \<Rightarrow> None | Inr b \<Rightarrow> get_opt (Some b) k)"

text \<open>\<^verbatim>\<open>message\<close> and \<^verbatim>\<open>configuration\<close>, as line 99 destructures \<^verbatim>\<open>params || {}\<close>.\<close>

definition inbound_message :: "request \<Rightarrow> jsval" where
  "inbound_message req = get_opt (js_or (body_member req ''params'') (Some (JObj []))) ''message''"

definition inbound_configuration :: "request \<Rightarrow> jsval" where
  "inbound_configuration req = get_opt (js_or (body_member req ''params'') (Some (JObj []))) ''configuration''"

text \<open>The handler threw: no response was returned.\<close>

definition throws :: "outcome \<Rightarrow> bool" where
  "throws out = (case returned out of Inl e \<Rightarrow> True | Inr r \<Rightarrow> False)"

text \<open>
  The conditions of the checks of lines 54, 70, 85, 102 and 117, on the request: a bad
  envelope, a wrong method, an agent the registry does not know, a missing or
  malformed message.
\<close>

definition bad_envelope :: "request \<Rightarrow> bool" where
  "bad_envelope req = (body_member req ''jsonrpc'' \<noteq> str ''2.0'' \<or> \<not> truthy (body_member req ''id''))"

definition wrong_method :: "request \<Rightarrow> bool" where
  "wrong_method req = (body_member req ''method'' \<noteq> str ''message/send'')"

definition unknown_agent :: "env \<Rightarrow> request \<Rightarrow> bool" where
  "unknown_agent c req = (case getAgent c (agentId req) of Inr None \<Rightarrow> True | _ \<Rightarrow> False)"

definition bad_message :: "request \<Rightarrow> bool" where
  "bad_message req =
     (\<not> truthy (inbound_message req) \<or> \<not> typeof_object (inbound_message req)
      \<or> get_opt (inbound_message req) ''kind'' \<noteq> str ''message''
      \<or> \<not> truthy (get_opt (inbound_message req) ''role'')
      \<or> \<not> truthy (get_opt (inbound_message req) ''parts''))"

text \<open>How many calls of \<^verbatim>\<open>randomUUID\<close> the expression \<^verbatim>\<open>v || randomUUID()\<close> makes.\<close>

definition uuid_calls :: "jsval \<Rightarrow> nat" where
  "uuid_calls v = (if truthy v then 0 else 1)"

text \<open>The tool results of a response, none when the member is missing.\<close>

definition tool_results :: "agent_response \<Rightarrow> json list" where
  "tool_results response = (case toolResults response of None \<Rightarrow> [] | Some rs \<Rightarrow> rs)"

section \<open>The message parts of the data model\<close>

text \<open>
  The spec's \<open>MessagePart\<close>: a text part carrying a string, a data part carrying a
  payload, or a part of any other kind. \<open>as_part\<close> reads a parsed value as one; it
  gives \<open>None\<close> for \<^verbatim>\<open>null\<close>, for a part of kind \<^verbatim>\<open>text\<close> whose \<^verbatim>\<open>text\<close> is not a string
  and for a part of kind \<^verbatim>\<open>data\<close> without \<^verbatim>\<open>data\<close>.
\<close>

datatype message_part = TextPart string | DataPart json | OtherPart

definition as_part :: "json \<Rightarrow> message_part option" where
  "as_part p =
     (if p = JNull then None
      else if get_opt (Some p) ''kind'' = str ''text''
        then (case get_opt (Some p) ''text'' of Some (JStr s) \<Rightarrow> Some (TextPart s) | _ \<Rightarrow> None)
      else if get_opt (Some p) ''kind'' = str ''data''
        then (case get_opt (Some p) ''data'' of Some d \<Rightarrow> Some (DataPart d) | None \<Rightarrow> None)
      else Some OtherPart)"

text \<open>
  The content as the spec words it: a text part contributes its text, a data part the
  JSON serialization of its payload, any other kind the empty string, joined by newline.
\<close>

fun contribution :: "message_part \<Rightarrow> string" where
  "contribution (TextPart s) = s"
| "contribution (DataPart d) = stringify d"
| "contribution OtherPart = []"

definition spec_content :: "message_part list \<Rightarrow> string" where
  "spec_content mps = join_strings [CHR 0x0A] (map contribution mps)"

section \<open>Example requests\<close>

text \<open>
  A UUID source that never repeats, an agent that replies with a text and two tool
  results, one that rejects with \<^verbatim>\<open>undefined\<close>, and a registry that knows both.
\<close>

definition example_uuid :: "nat \<Rightarrow> string" where
  "example_uuid n = ''uuid-'' @ replicate n (CHR ''x'')"

definition planner :: agent where
  "planner conv =
     Inr \<lparr>response_text = str ''plan'',
          toolResults = Some [JObj [(''name'', JStr ''search''), (''hits'', JNum ''3'')],
                              JObj [(''name'', JStr [])]]\<rparr>"

definition rejecting :: agent where
  "rejecting conv = Inl None"

definition example_env :: env where
  "example_env =
     \<lparr>getAgent = (\<lambda>a. if a = ''plannerAgent'' then Inr (Some planner)
                       else if a = ''rejectingAgent'' then Inr (Some rejecting)
                       else Inr None),
      randomUUID = example_uuid,
      now = ''2025-11-03T10:00:00.000Z''\<rparr>"

text \<open>A \<^verbatim>\<open>message/send\<close> request with id \<^verbatim>\<open>"req-1"\<close> carrying the given message.\<close>

definition send :: "string \<Rightarrow> json \<Rightarrow> request" where
  "send a message =
     \<lparr>agentId = a,
      json_body = Inr (JObj [(''jsonrpc'', JStr ''2.0''), (''id'', JStr ''req-1''),
                             (''method'', JStr ''message/send''),
                             (''params'', JObj [(''message'', message)])])\<rparr>"

text \<open>A user message with the given parts and further members.\<close>

definition user_message :: "json list \<Rightarrow> (string \<times> json) list \<Rightarrow> json" where
  "user_message ps others =
     JObj ([(''kind'', JStr ''message''), (''role'', JStr ''user''), (''parts'', JArr ps)] @ others)"

definition text_a_data_x :: "json list" where
  "text_a_data_x =
     [JObj [(''kind'', JStr ''text''), (''text'', JStr ''a'')],
      JObj [(''kind'', JStr ''data''), (''data'', JObj [(''x'', JNum ''1'')])]]"

text \<open>A request to the planner whose two-part user message has the further members given.\<close>

definition example_request :: "(string \<times> json) list \<Rightarrow> request" where
  "example_request others = send ''plannerAgent'' (user_message text_a_data_x others)"

section \<open>Properties\<close>

subsection \<open>Validation and the agent call\<close>

lemma truthy_str [simp]: "truthy (str s) = (s \<noteq> [])"
  by (simp add: str_def)

lemma validate_Responded:
  "validate c req = (rid, Responded r) \<Longrightarrow> status r = 400 \<or> status r = 404"
  by (auto simp: validate_def rpc_error_def Let_def split: sum.splits if_splits option.splits)

lemma validate_Accepted:
  assumes "validate c req = (rid, Accepted agent message configuration)"
  shows "rid = body_member req ''id''" "truthy (body_member req ''id'')"
    "body_member req ''jsonrpc'' = str ''2.0''"
    "body_member req ''method'' = str ''message/send''"
    "getAgent c (agentId req) = Inr (Some agent)"
    "message = inbound_message req" "configuration = inbound_configuration req"
    "truthy message" "typeof_object message"
    "get_opt message ''kind'' = str ''message''"
    "truthy (get_opt message ''role'')" "truthy (get_opt message ''parts'')"
    "\<exists>b. json_body req = Inr b"
  using assms
  by (auto simp: validate_def Let_def body_member_def inbound_message_def inbound_configuration_def
      split: sum.splits if_splits option.splits)

lemma respond_calls:
  "respond c agent message configuration rid = (res, calls, logged) \<Longrightarrow>
   calls = [] \<or> (\<exists>s. mastra_content (get_opt message ''parts'') = Inr s \<and>
      calls = [[\<lparr>role = get_opt message ''role'', content = s\<rparr>]])"
  by (auto simp: respond_def Let_def split: sum.splits prod.splits)

text \<open>When the agent is called, it is called once, with one message.\<close>

lemma handler_calls:
  assumes "conv \<in> set (generate_calls (handler c req))"
  shows "\<exists>s. mastra_content (get_opt (inbound_message req) ''parts'') = Inr s \<and>
           generate_calls (handler c req) = [[\<lparr>role = get_opt (inbound_message req) ''role'', content = s\<rparr>]]"
proof -
  obtain rid v where v: "validate c req = (rid, v)" by (cases "validate c req")
  show ?thesis
  proof (cases v)
    case (Accepted agent message configuration)
    obtain res calls logged where r: "respond c agent message configuration rid = (res, calls, logged)"
      by (cases "respond c agent message configuration rid") auto
    have m: "message = inbound_message req"
      using validate_Accepted(6) v Accepted by blast
    have g: "generate_calls (handler c req) = calls"
      using v Accepted r by (auto simp: handler_def try_block_def split: sum.splits)
    from respond_calls [OF r] assms g m show ?thesis by auto
  next
    case (Responded r)
    with v assms show ?thesis by (auto simp: handler_def try_block_def split: sum.splits)
  next
    case (Raised e)
    with v assms show ?thesis by (auto simp: handler_def try_block_def split: sum.splits)
  qed
qed

lemma validate_message:
  assumes "\<not> bad_envelope req" "\<not> wrong_method req" "getAgent c (agentId req) = Inr (Some agent)"
  shows "bad_message req \<Longrightarrow>
           \<exists>msg. validate c req = (body_member req ''id'', Responded (rpc_error 400 (body_member req ''id'') ''-32602'' msg))"
    and "\<not> bad_message req \<Longrightarrow>
           validate c req = (body_member req ''id'', Accepted agent (inbound_message req) (inbound_configuration req))"
  using assms
  by (auto simp: validate_def Let_def bad_envelope_def wrong_method_def bad_message_def body_member_def
      inbound_message_def inbound_configuration_def split: sum.splits)

lemma respond_called:
  "mastra_content (get_opt message ''parts'') = Inr s \<Longrightarrow>
   fst (snd (respond c agent message configuration rid)) = [[\<lparr>role = get_opt message ''role'', content = s\<rparr>]]"
  by (auto simp: respond_def Let_def split: sum.splits prod.splits)

lemma respond_status:
  "respond c agent message configuration rid = (Inr r, calls, logged) \<Longrightarrow> status r = 200"
  by (auto simp: respond_def Let_def split: sum.splits prod.splits)

lemma handler_Responded:
  "validate c req = (rid, Responded r) \<Longrightarrow>
   handler c req = \<lparr>returned = Inr r, generate_calls = [], console = []\<rparr>"
  by (simp add: handler_def try_block_def)

lemma handler_Accepted:
  assumes "validate c req = (rid, Accepted agent message configuration)"
  shows "generate_calls (handler c req) = fst (snd (respond c agent message configuration rid))"
    and "response_status (handler c req) \<noteq> Some 400" "response_status (handler c req) \<noteq> Some 404"
proof -
  obtain res calls logged where r: "respond c agent message configuration rid = (res, calls, logged)"
    by (cases "respond c agent message configuration rid") auto
  show "generate_calls (handler c req) = fst (snd (respond c agent message configuration rid))"
    using assms r by (auto simp: handler_def try_block_def split: sum.splits)
  show "response_status (handler c req) \<noteq> Some 400" "response_status (handler c req) \<noteq> Some 404"
    using assms r respond_status [of c agent message configuration rid _ calls logged]
    by (auto simp: handler_def try_block_def response_status_def split: sum.splits)
qed

lemma handler_Raised:
  assumes "validate c req = (rid, Raised e)"
  shows "generate_calls (handler c req) = []"
    and "response_status (handler c req) \<noteq> Some 400" "response_status (handler c req) \<noteq> Some 404"
  using assms by (auto simp: handler_def try_block_def response_status_def split: sum.splits)

subsection \<open>Message translation\<close>

lemma part_text_as_part:
  "as_part p = Some mp \<Longrightarrow> \<exists>v. part_text p = Inr v \<and> join_element v = Inr (contribution mp)"
  by (cases p) (auto simp: as_part_def part_text_def JSON_stringify_def str_def
      split: if_splits option.splits json.splits)

lemma map_parts_as_part:
  "map as_part ps = map Some mps \<Longrightarrow>
   \<exists>vs. map_parts ps = Inr vs \<and> join_elements vs = Inr (map contribution mps)"
proof (induction ps arbitrary: mps)
  case Nil
  then show ?case by simp
next
  case (Cons p ps)
  then obtain mp rest where mps: "mps = mp # rest" and p: "as_part p = Some mp"
    and rest: "map as_part ps = map Some rest"
    by (cases mps) auto
  from part_text_as_part [OF p] obtain v
    where v: "part_text p = Inr v" "join_element v = Inr (contribution mp)"
    by blast
  from Cons.IH [OF rest] obtain vs
    where vs: "map_parts ps = Inr vs" "join_elements vs = Inr (map contribution rest)"
    by blast
  show ?case using v vs mps by simp
qed

lemma mastra_content_spec:
  "map as_part ps = map Some mps \<Longrightarrow> mastra_content (Some (JArr ps)) = Inr (spec_content mps)"
  using map_parts_as_part [of ps mps]
  by (auto simp: mastra_content_def array_join_def spec_content_def)

lemma mastra_content_array:
  "mastra_content parts = Inr s \<Longrightarrow> \<exists>ps. parts = Some (JArr ps)"
  by (auto simp: mastra_content_def split: option.splits json.splits)

text \<open>
  C1. For every accepted request (the envelope and the method pass, the agent is found,
  the message passes its checks) whose parts are an array of message parts of the data
  model (text parts carrying a string, data parts carrying a payload, parts of any
  other kind), the handler calls the agent, once, and the conversation passed is the
  single message whose role is the inbound role and whose content is the parts'
  contributions in order, joined by newline: a text part gives its text, a data part
  the JSON serialization of its payload, any other part the empty string. An empty
  join is passed as the empty string.
\<close>

theorem content_passed_to_agent:
  assumes "\<not> bad_envelope req" and "\<not> wrong_method req"
    and "getAgent c (agentId req) = Inr (Some agent)"
    and "\<not> bad_message req"
    and "get_opt (inbound_message req) ''parts'' = Some (JArr ps)"
    and "map as_part ps = map Some mps"
  shows "generate_calls (handler c req)
           = [[\<lparr>role = get_opt (inbound_message req) ''role'', content = spec_content mps\<rparr>]]"
proof -
  from validate_message(2) [OF assms(1-4)]
  have v: "validate c req = (body_member req ''id'', Accepted agent (inbound_message req) (inbound_configuration req))" .
  from mastra_content_spec [OF assms(6)] assms(5)
  have "mastra_content (get_opt (inbound_message req) ''parts'') = Inr (spec_content mps)"
    by simp
  from respond_called [OF this] handler_Accepted(1) [OF v] show ?thesis
    by simp
qed

text \<open>
  The spec's example: for the parts \<^verbatim>\<open>[{kind:"text", text:"a"}, {kind:"data", data:{x:1}}]\<close>
  the agent receives \<^verbatim>\<open>a\n{"x":1}\<close>.
\<close>

theorem content_passed_to_agent_witness:
  \<open>\<not> bad_envelope (example_request [])
   \<and> \<not> wrong_method (example_request [])
   \<and> getAgent example_env (agentId (example_request [])) = Inr (Some planner)
   \<and> \<not> bad_message (example_request [])
   \<and> get_opt (inbound_message (example_request [])) ''parts'' = Some (JArr text_a_data_x)
   \<and> map as_part text_a_data_x = map Some [TextPart ''a'', DataPart (JObj [(''x'', JNum ''1'')])]
   \<and> generate_calls (handler example_env (example_request []))
       = [[\<lparr>role = Some (JStr ''user''), content = ''a\<newline>{"x":1}''\<rparr>]]\<close>
proof -
  have e: "\<not> bad_envelope (example_request [])"
    and m: "\<not> wrong_method (example_request [])"
    and b: "\<not> bad_message (example_request [])"
    by code_simp+
  have a: "getAgent example_env (agentId (example_request [])) = Inr (Some planner)"
    by (simp add: example_env_def example_request_def send_def)
  have p: "get_opt (inbound_message (example_request [])) ''parts'' = Some (JArr text_a_data_x)"
    by code_simp
  have t: "map as_part text_a_data_x = map Some [TextPart ''a'', DataPart (JObj [(''x'', JNum ''1'')])]"
    by code_simp
  have r: "get_opt (inbound_message (example_request [])) ''role'' = Some (JStr ''user'')"
    by code_simp
  have sc: \<open>spec_content [TextPart ''a'', DataPart (JObj [(''x'', JNum ''1'')])] = ''a\<newline>{"x":1}''\<close>
    by code_simp
  from content_passed_to_agent [OF e m a b p t] e m a b p t show ?thesis
    unfolding r sc by simp
qed

subsection \<open>The successful response\<close>

lemma or_uuid_eq:
  "or_uuid c v n = (if truthy v then v else str (randomUUID c n), n + uuid_calls v)"
  by (simp add: or_uuid_def uuid_calls_def)

lemma respond_200:
  assumes "respond c agent message configuration rid = (Inr r, calls, logged)"
  shows "\<exists>s response artifacts.
      mastra_content (get_opt message ''parts'') = Inr s
    \<and> calls = [[\<lparr>role = get_opt message ''role'', content = s\<rparr>]]
    \<and> agent [\<lparr>role = get_opt message ''role'', content = s\<rparr>] = Inr response
    \<and> build_artifacts c (Suc (uuid_calls (get_opt message ''taskId'') + uuid_calls (get_opt message ''contextId'')))
          (toolResults response) = Inr artifacts
    \<and> logged = non_blocking_log configuration
    \<and> r = \<lparr>status = 200,
           body = a2aResponse c rid
             (if truthy (get_opt message ''taskId'') then get_opt message ''taskId'' else str (randomUUID c 0))
             (if truthy (get_opt message ''contextId'') then get_opt message ''contextId''
              else str (randomUUID c (uuid_calls (get_opt message ''taskId''))))
             (js_or (response_text response) (str []))
             (str (randomUUID c (uuid_calls (get_opt message ''taskId'') + uuid_calls (get_opt message ''contextId''))))
             artifacts
             (history message
               (if truthy (get_opt message ''messageId'') then get_opt message ''messageId''
                else str (randomUUID c (Suc (uuid_calls (get_opt message ''taskId'')
                       + uuid_calls (get_opt message ''contextId'')) + length artifacts)))
               (if truthy (get_opt message ''taskId'') then get_opt message ''taskId'' else str (randomUUID c 0))
               (js_or (response_text response) (str []))
               (str (randomUUID c (uuid_calls (get_opt message ''taskId'') + uuid_calls (get_opt message ''contextId'')))))\<rparr>"
  using assms
  by (auto simp: respond_def Let_def or_uuid_eq split: sum.splits)

lemma handler_200:
  assumes "response_status (handler c req) = Some 200"
  shows "\<exists>rid agent message configuration calls logged r.
      validate c req = (rid, Accepted agent message configuration)
    \<and> respond c agent message configuration rid = (Inr r, calls, logged)
    \<and> handler c req = \<lparr>returned = Inr r, generate_calls = calls, console = logged\<rparr>"
proof -
  obtain rid v where v: "validate c req = (rid, v)" by (cases "validate c req")
  show ?thesis
  proof (cases v)
    case (Accepted agent message configuration)
    obtain res calls logged where r: "respond c agent message configuration rid = (res, calls, logged)"
      by (cases "respond c agent message configuration rid") auto
    show ?thesis
    proof (cases res)
      case (Inr r')
      with v Accepted r show ?thesis by (simp add: handler_def try_block_def)
    next
      case (Inl e)
      with v Accepted r assms show ?thesis
        by (auto simp: handler_def try_block_def response_status_def split: sum.splits)
    qed
  next
    case (Responded r)
    with validate_Responded [of c req rid r] v assms show ?thesis
      by (auto simp: handler_def try_block_def response_status_def)
  next
    case (Raised e)
    with v assms show ?thesis
      by (auto simp: handler_def try_block_def response_status_def split: sum.splits)
  qed
qed

lemma at_a2aResponse:
  "at (a2aResponse c rid T C txt rm arts hist) [''id''] = rid"
  "at (a2aResponse c rid T C txt rm arts hist) [''result'', ''id''] = T"
  "at (a2aResponse c rid T C txt rm arts hist) [''result'', ''contextId''] = C"
  "at (a2aResponse c rid T C txt rm arts hist) [''result'', ''status'', ''state''] = str ''completed''"
  "at (a2aResponse c rid T C txt rm arts hist) [''result'', ''kind''] = str ''task''"
  "at (a2aResponse c rid T C txt rm arts hist) [''result'', ''artifacts''] = Some (JArr arts)"
  "at (a2aResponse c rid T C txt rm arts hist) [''result'', ''history''] = Some (JArr hist)"
  "at (a2aResponse c rid T C txt rm arts hist) [''error''] = None"
  by (cases rid; cases T; cases C; simp add: a2aResponse_def obj_def str_def)+


lemma handler_success:
  assumes "response_status (handler c req) = Some 200"
  shows "\<exists>agent s response artifacts.
      getAgent c (agentId req) = Inr (Some agent)
    \<and> generate_calls (handler c req) = [[\<lparr>role = get_opt (inbound_message req) ''role'', content = s\<rparr>]]
    \<and> agent [\<lparr>role = get_opt (inbound_message req) ''role'', content = s\<rparr>] = Inr response
    \<and> build_artifacts c (Suc (uuid_calls (get_opt (inbound_message req) ''taskId'')
            + uuid_calls (get_opt (inbound_message req) ''contextId''))) (toolResults response) = Inr artifacts
    \<and> console (handler c req) = non_blocking_log (inbound_configuration req)
    \<and> returned (handler c req) = Inr \<lparr>status = 200,
           body = a2aResponse c (body_member req ''id'')
             (if truthy (get_opt (inbound_message req) ''taskId'') then get_opt (inbound_message req) ''taskId''
              else str (randomUUID c 0))
             (if truthy (get_opt (inbound_message req) ''contextId'') then get_opt (inbound_message req) ''contextId''
              else str (randomUUID c (uuid_calls (get_opt (inbound_message req) ''taskId''))))
             (js_or (response_text response) (str []))
             (str (randomUUID c (uuid_calls (get_opt (inbound_message req) ''taskId'')
                + uuid_calls (get_opt (inbound_message req) ''contextId''))))
             artifacts
             (history (inbound_message req)
               (if truthy (get_opt (inbound_message req) ''messageId'') then get_opt (inbound_message req) ''messageId''
                else str (randomUUID c (Suc (uuid_calls (get_opt (inbound_message req) ''taskId'')
                       + uuid_calls (get_opt (inbound_message req) ''contextId'')) + length artifacts)))
               (if truthy (get_opt (inbound_message req) ''taskId'') then get_opt (inbound_message req) ''taskId''
                else str (randomUUID c 0))
               (js_or (response_text response) (str []))
               (str (randomUUID c (uuid_calls (get_opt (inbound_message req) ''taskId'')
                  + uuid_calls (get_opt (inbound_message req) ''contextId'')))))\<rparr>"
proof -
  from handler_200 [OF assms] obtain rid agent message configuration calls logged r where
    v: "validate c req = (rid, Accepted agent message configuration)"
    and r: "respond c agent message configuration rid = (Inr r, calls, logged)"
    and h: "handler c req = \<lparr>returned = Inr r, generate_calls = calls, console = logged\<rparr>"
    by blast
  note a = validate_Accepted [OF v]
  from respond_200 [OF r] a(1,5,6,7) h show ?thesis by auto
qed

lemma at_rpc_error:
  "at (body (rpc_error st ident code msg)) (''result'' # p) = None"
  "at (body (rpc_error st ident code msg)) [''error'', ''code''] = Some (JNum code)"
  "status (rpc_error st ident code msg) = st"
  by (cases ident; simp add: rpc_error_def obj_def str_def)+

lemma validate_Responded_body:
  "validate c req = (rid, Responded r) \<Longrightarrow> at (body r) (''result'' # p) = None"
  by (auto simp: validate_def Let_def at_rpc_error split: sum.splits if_splits option.splits)

lemma handler_caught:
  assumes "try_block c req = (rid, Inl e, calls, logged)"
  shows "response_at (handler c req) (''result'' # p) = None"
    and "response_status (handler c req) = None \<or> response_status (handler c req) = Some 500"
  using assms
  by (cases rid; auto simp: handler_def response_at_def response_status_def obj_def str_def split: sum.splits)+

lemma no_result_unless_200:
  assumes "response_status (handler c req) \<noteq> Some 200"
  shows "response_at (handler c req) (''result'' # p) = None"
proof -
  obtain rid res calls logged where t: "try_block c req = (rid, res, calls, logged)"
    by (cases "try_block c req") auto
  show ?thesis
  proof (cases res)
    case (Inl e)
    with t handler_caught(1) show ?thesis by blast
  next
    case (Inr r)
    obtain rid' v where v: "validate c req = (rid', v)" by (cases "validate c req")
    show ?thesis
    proof (cases v)
      case (Responded r')
      with v t Inr validate_Responded_body [of c req rid' r' p] show ?thesis
        by (auto simp: handler_def try_block_def response_at_def)
    next
      case (Raised e)
      with v t Inr show ?thesis by (auto simp: try_block_def)
    next
      case (Accepted agent message configuration)
      with v t Inr have "respond c agent message configuration rid' = (Inr r, calls, logged)"
        by (auto simp: try_block_def)
      from respond_200 [OF this] have "status r = 200" by auto
      with t Inr assms show ?thesis by (auto simp: handler_def response_status_def)
    qed
  qed
qed

text \<open>
  C4, as amended. In every successful response, \<^verbatim>\<open>result.id\<close> is the message's
  \<^verbatim>\<open>taskId\<close> when that is truthy, and otherwise (absent, or falsy such as the empty
  string) the value of the first call of \<^verbatim>\<open>randomUUID\<close>; \<^verbatim>\<open>result.contextId\<close> is the
  message's \<^verbatim>\<open>contextId\<close> when that is truthy, and otherwise the value of the next call
  of \<^verbatim>\<open>randomUUID\<close>.
\<close>

theorem task_and_context_ids:
  assumes "response_status (handler c req) = Some 200"
  shows "response_at (handler c req) [''result'', ''id''] =
           (if truthy (get_opt (inbound_message req) ''taskId'') then get_opt (inbound_message req) ''taskId''
            else str (randomUUID c 0))
       \<and> response_at (handler c req) [''result'', ''contextId''] =
           (if truthy (get_opt (inbound_message req) ''contextId'') then get_opt (inbound_message req) ''contextId''
            else str (randomUUID c (uuid_calls (get_opt (inbound_message req) ''taskId''))))"
proof -
  from handler_success [OF assms] obtain reply rm arts hist where
    "returned (handler c req) = Inr \<lparr>status = 200, body = a2aResponse c (body_member req ''id'')
       (if truthy (get_opt (inbound_message req) ''taskId'') then get_opt (inbound_message req) ''taskId''
            else str (randomUUID c 0))
       (if truthy (get_opt (inbound_message req) ''contextId'') then get_opt (inbound_message req) ''contextId''
            else str (randomUUID c (uuid_calls (get_opt (inbound_message req) ''taskId'')))) reply rm arts hist\<rparr>"
    by blast
  then show ?thesis
    by (simp only: response_at_def sum.case http_response.simps at_a2aResponse simp_thms)
qed

text \<open>The explicit identifiers \<^verbatim>\<open>T1\<close> and \<^verbatim>\<open>C1\<close> are echoed.\<close>

theorem task_and_context_ids_witness:
  "response_status (handler example_env (example_request [(''taskId'', JStr ''T1''), (''contextId'', JStr ''C1'')])) = Some 200
   \<and> response_at (handler example_env (example_request [(''taskId'', JStr ''T1''), (''contextId'', JStr ''C1'')]))
        [''result'', ''id''] = str ''T1''
   \<and> response_at (handler example_env (example_request [(''taskId'', JStr ''T1''), (''contextId'', JStr ''C1'')]))
        [''result'', ''contextId''] = str ''C1''"
proof -
  have ok: "response_status (handler example_env (example_request [(''taskId'', JStr ''T1''), (''contextId'', JStr ''C1'')])) = Some 200"
    by code_simp
  have t: "get_opt (inbound_message (example_request [(''taskId'', JStr ''T1''), (''contextId'', JStr ''C1'')])) ''taskId'' = str ''T1''"
    by code_simp
  have x: "get_opt (inbound_message (example_request [(''taskId'', JStr ''T1''), (''contextId'', JStr ''C1'')])) ''contextId'' = str ''C1''"
    by code_simp
  from task_and_context_ids [OF ok] ok show ?thesis
    unfolding t x by simp
qed

text \<open>
  C4 as stated fails: a request that supplies the \<^verbatim>\<open>taskId\<close> \<^verbatim>\<open>""\<close> explicitly gets a
  generated \<^verbatim>\<open>result.id\<close>, not its own.
\<close>

theorem supplied_task_id_not_echoed:
  "get_opt (inbound_message (example_request [(''taskId'', JStr []), (''contextId'', JStr ''C1'')])) ''taskId'' = Some (JStr [])
   \<and> response_status (handler example_env (example_request [(''taskId'', JStr []), (''contextId'', JStr ''C1'')])) = Some 200
   \<and> response_at (handler example_env (example_request [(''taskId'', JStr []), (''contextId'', JStr ''C1'')]))
        [''result'', ''id''] = Some (JStr ''uuid-'')
   \<and> response_at (handler example_env (example_request [(''taskId'', JStr []), (''contextId'', JStr ''C1'')]))
        [''result'', ''id'']
       \<noteq> get_opt (inbound_message (example_request [(''taskId'', JStr []), (''contextId'', JStr ''C1'')])) ''taskId''"
  by code_simp

text \<open>
  C9. Every successful response has \<^verbatim>\<open>result.status.state\<close> equal to \<^verbatim>\<open>"completed"\<close>
  and \<^verbatim>\<open>result.kind\<close> equal to \<^verbatim>\<open>"task"\<close>; and whatever the handler returns, a task state
  in it is \<^verbatim>\<open>"completed"\<close>.
\<close>

theorem completed_task:
  "(response_status (handler c req) = Some 200 \<longrightarrow>
      response_at (handler c req) [''result'', ''status'', ''state''] = str ''completed''
    \<and> response_at (handler c req) [''result'', ''kind''] = str ''task'')
   \<and> (response_at (handler c req) [''result'', ''status'', ''state''] = Some st \<longrightarrow> st = JStr ''completed'')"
proof -
  have ok: "response_at (handler c req) [''result'', ''status'', ''state''] = str ''completed''
      \<and> response_at (handler c req) [''result'', ''kind''] = str ''task''"
    if "response_status (handler c req) = Some 200"
  proof -
    from handler_success [OF that] obtain b where
      "returned (handler c req) = Inr \<lparr>status = 200, body = b\<rparr>"
      and "at b [''result'', ''status'', ''state''] = str ''completed''"
      and "at b [''result'', ''kind''] = str ''task''"
      by (auto simp: at_a2aResponse)
    then show ?thesis by (simp add: response_at_def)
  qed
  moreover have "st = JStr ''completed''"
    if "response_at (handler c req) [''result'', ''status'', ''state''] = Some st"
  proof (cases "response_status (handler c req) = Some 200")
    case True
    with ok that show ?thesis by (simp add: str_def)
  next
    case False
    from no_result_unless_200 [OF False] that show ?thesis by simp
  qed
  ultimately show ?thesis by blast
qed

theorem completed_task_witness:
  "response_status (handler example_env (example_request [])) = Some 200
   \<and> response_at (handler example_env (example_request [])) [''result'', ''status'', ''state''] = Some (JStr ''completed'')
   \<and> response_at (handler example_env (example_request [])) [''result'', ''kind''] = Some (JStr ''task'')"
proof -
  have ok: "response_status (handler example_env (example_request [])) = Some 200"
    by code_simp
  from completed_task [where c = example_env and req = "example_request []" and st = JNull] ok
  show ?thesis by (simp add: str_def)
qed

subsection \<open>History and artifacts\<close>

lemma at_history:
  "\<exists>h1 h2. history M mid T reply rm = [h1, h2]
     \<and> at h1 [''kind''] = str ''message''
     \<and> at h1 [''role''] = get_opt M ''role''
     \<and> at h1 [''parts''] = get_opt M ''parts''
     \<and> at h1 [''messageId''] = mid
     \<and> at h1 [''taskId''] = T
     \<and> at h2 [''kind''] = str ''message''
     \<and> at h2 [''role''] = str ''agent''
     \<and> at h2 [''parts''] = Some (JArr [obj [(''kind'', str ''text''), (''text'', reply)]])
     \<and> at h2 [''messageId''] = rm
     \<and> at h2 [''taskId''] = T"
  by (cases "get_opt M ''role''"; cases "get_opt M ''parts''"; cases mid; cases T; cases rm;
      simp add: history_def obj_def str_def)

lemma get_prop_Inr: "get_prop v k = Inr x \<Longrightarrow> x = get_opt v k"
  by (cases "(v, k)" rule: get_prop.cases) auto

lemma at_artifact:
  "at (obj [(''artifactId'', str u), (''name'', js_or nm (str ''ToolResult'')),
            (''parts'', Some (JArr [obj [(''kind'', str ''data''), (''data'', Some r)]]))]) [''artifactId''] = str u"
  "at (obj [(''artifactId'', str u), (''name'', js_or nm (str ''ToolResult'')),
            (''parts'', Some (JArr [obj [(''kind'', str ''data''), (''data'', Some r)]]))]) [''name'']
     = js_or nm (str ''ToolResult'')"
  "at (obj [(''artifactId'', str u), (''name'', js_or nm (str ''ToolResult'')),
            (''parts'', Some (JArr [obj [(''kind'', str ''data''), (''data'', Some r)]]))]) [''parts'']
     = Some (JArr [JObj [(''kind'', JStr ''data''), (''data'', r)]])"
  by (cases "js_or nm (str ''ToolResult'')"; simp add: obj_def str_def)+

lemma push_artifacts_Inr:
  "push_artifacts c n rs = Inr arts \<Longrightarrow>
   length arts = length rs \<and>
   (\<forall>i < length rs.
      at (arts ! i) [''artifactId''] = str (randomUUID c (n + i))
    \<and> at (arts ! i) [''name''] = js_or (get_opt (Some (rs ! i)) ''name'') (str ''ToolResult'')
    \<and> at (arts ! i) [''parts''] = Some (JArr [JObj [(''kind'', JStr ''data''), (''data'', rs ! i)]]))"
proof (induction rs arbitrary: n arts)
  case Nil
  then show ?case by simp
next
  case (Cons r rs)
  from Cons.prems obtain nm rest where
    nm: "get_prop (Some r) ''name'' = Inr nm"
    and rest: "push_artifacts c (Suc n) rs = Inr rest"
    and arts: "arts = obj [(''artifactId'', str (randomUUID c n)), (''name'', js_or nm (str ''ToolResult'')),
            (''parts'', Some (JArr [obj [(''kind'', str ''data''), (''data'', Some r)]]))] # rest"
    by (auto split: sum.splits)
  note ih = Cons.IH [OF rest]
  have nm': "nm = get_opt (Some r) ''name''" using get_prop_Inr [OF nm] .
  show ?case
  proof (intro conjI allI impI)
    show "length arts = length (r # rs)" using ih arts by simp
  next
    fix i assume i: "i < length (r # rs)"
    show "at (arts ! i) [''artifactId''] = str (randomUUID c (n + i))"
      using i ih arts by (cases i) (simp_all add: at_artifact)
    show "at (arts ! i) [''name''] = js_or (get_opt (Some ((r # rs) ! i)) ''name'') (str ''ToolResult'')"
      using i ih arts nm' by (cases i) (simp_all add: at_artifact)
    show "at (arts ! i) [''parts''] = Some (JArr [JObj [(''kind'', JStr ''data''), (''data'', (r # rs) ! i)]])"
      using i ih arts by (cases i) (simp_all add: at_artifact)
  qed
qed

lemma build_artifacts_Inr:
  assumes "build_artifacts c n (toolResults response) = Inr arts"
  shows "length arts = length (tool_results response)"
    and "\<forall>i < length arts.
      at (arts ! i) [''artifactId''] = str (randomUUID c (n + i))
    \<and> at (arts ! i) [''name''] = js_or (get_opt (Some (tool_results response ! i)) ''name'') (str ''ToolResult'')
    \<and> at (arts ! i) [''parts''] = Some (JArr [JObj [(''kind'', JStr ''data''), (''data'', tool_results response ! i)]])"
proof -
  show "length arts = length (tool_results response)"
    using assms push_artifacts_Inr [of c n "tool_results response" arts]
    by (auto simp: build_artifacts_def tool_results_def split: option.splits if_splits)
  show "\<forall>i < length arts.
      at (arts ! i) [''artifactId''] = str (randomUUID c (n + i))
    \<and> at (arts ! i) [''name''] = js_or (get_opt (Some (tool_results response ! i)) ''name'') (str ''ToolResult'')
    \<and> at (arts ! i) [''parts''] = Some (JArr [JObj [(''kind'', JStr ''data''), (''data'', tool_results response ! i)]])"
    using assms push_artifacts_Inr [of c n "tool_results response" arts]
    by (auto simp: build_artifacts_def tool_results_def split: option.splits if_splits)
qed

lemma distinct_artifact_ids:
  assumes "inj u" and "\<forall>i < length arts. at (arts ! i) [''artifactId''] = str (u (n + i))"
  shows "distinct (map (\<lambda>a. at a [''artifactId'']) arts)"
proof -
  have "map (\<lambda>a. at a [''artifactId'']) arts = map (\<lambda>i. str (u (n + i))) [0..<length arts]"
    using assms(2) by (intro nth_equalityI) auto
  moreover have "inj (\<lambda>i. str (u (n + i)))"
  proof (rule injI)
    fix x y assume "str (u (n + x)) = str (u (n + y))"
    then have "u (n + x) = u (n + y)" by (simp add: str_def)
    with assms(1) have "n + x = n + y" by (rule injD)
    then show "x = y" by simp
  qed
  ultimately show ?thesis by (simp add: distinct_map inj_on_def inj_def)
qed


lemma inj_example_uuid: "inj example_uuid"
proof (rule injI)
  fix m n assume "example_uuid m = example_uuid n"
  then have "length (replicate m (CHR ''x'')) = length (replicate n (CHR ''x''))"
    by (simp add: example_uuid_def)
  then show "m = n" by simp
qed

text \<open>
  C3, as amended. In every successful response \<^verbatim>\<open>result.artifacts\<close> is present and has
  one entry per tool result of the agent's response, in order (none when the response
  has no tool results). The \<open>i\<close>-th entry has the value of its own call of
  \<^verbatim>\<open>randomUUID\<close> as \<^verbatim>\<open>artifactId\<close>, so the ids are distinct when \<^verbatim>\<open>randomUUID\<close> never
  repeats; its name is the tool result's \<^verbatim>\<open>name\<close> when that is truthy, and
  \<^verbatim>\<open>"ToolResult"\<close> when the name is absent or falsy (such as the empty string); its
  parts are the single data part wrapping the raw result.
\<close>

theorem artifacts_of_tool_results:
  assumes "response_status (handler c req) = Some 200"
  shows "\<exists>agent conv response arts.
      getAgent c (agentId req) = Inr (Some agent)
    \<and> generate_calls (handler c req) = [conv]
    \<and> agent conv = Inr response
    \<and> response_at (handler c req) [''result'', ''artifacts''] = Some (JArr arts)
    \<and> length arts = length (tool_results response)
    \<and> (\<forall>i < length arts.
          at (arts ! i) [''artifactId''] =
            str (randomUUID c (Suc (uuid_calls (get_opt (inbound_message req) ''taskId'')
                   + uuid_calls (get_opt (inbound_message req) ''contextId'')) + i))
        \<and> at (arts ! i) [''name''] = js_or (get_opt (Some (tool_results response ! i)) ''name'') (str ''ToolResult'')
        \<and> at (arts ! i) [''parts''] = Some (JArr [JObj [(''kind'', JStr ''data''), (''data'', tool_results response ! i)]]))
    \<and> (inj (randomUUID c) \<longrightarrow> distinct (map (\<lambda>a. at a [''artifactId'']) arts))"
proof -
  from handler_success [OF assms] obtain agent s response arts b where
    a: "getAgent c (agentId req) = Inr (Some agent)"
    and g: "generate_calls (handler c req) = [[\<lparr>role = get_opt (inbound_message req) ''role'', content = s\<rparr>]]"
    and r: "agent [\<lparr>role = get_opt (inbound_message req) ''role'', content = s\<rparr>] = Inr response"
    and ba: "build_artifacts c (Suc (uuid_calls (get_opt (inbound_message req) ''taskId'')
            + uuid_calls (get_opt (inbound_message req) ''contextId''))) (toolResults response) = Inr arts"
    and ret: "returned (handler c req) = Inr \<lparr>status = 200, body = b\<rparr>"
    and b: "at b [''result'', ''artifacts''] = Some (JArr arts)"
    by (auto simp: at_a2aResponse)
  note ar = build_artifacts_Inr [OF ba]
  have d: "distinct (map (\<lambda>a. at a [''artifactId'']) arts)" if "inj (randomUUID c)"
    using distinct_artifact_ids [OF that, of arts] ar(2) by blast
  from ret b have "response_at (handler c req) [''result'', ''artifacts''] = Some (JArr arts)"
    by (simp add: response_at_def)
  with a g r ar d show ?thesis by blast
qed

theorem artifacts_of_tool_results_witness:
  "response_status (handler example_env (example_request [])) = Some 200
   \<and> inj (randomUUID example_env)
   \<and> length (elements (response_at (handler example_env (example_request [])) [''result'', ''artifacts''])) = 2
   \<and> distinct (map (\<lambda>a. at a [''artifactId''])
        (elements (response_at (handler example_env (example_request [])) [''result'', ''artifacts''])))"
proof -
  have ok: "response_status (handler example_env (example_request [])) = Some 200"
    by code_simp
  have i: "inj (randomUUID example_env)"
    by (simp add: example_env_def inj_example_uuid)
  have n: "length (elements (response_at (handler example_env (example_request [])) [''result'', ''artifacts''])) = 2"
    by code_simp
  from artifacts_of_tool_results [OF ok] i n ok show ?thesis
    by (auto simp: elements_def)
qed

text \<open>
  C3 as stated fails: the planner's second tool result has the name \<^verbatim>\<open>""\<close>, and its
  artifact is named \<^verbatim>\<open>"ToolResult"\<close>.
\<close>

theorem empty_tool_name_not_kept:
  \<open>generate_calls (handler example_env (example_request []))
     = [[\<lparr>role = str ''user'', content = ''a\<newline>{"x":1}''\<rparr>]]
   \<and> planner [\<lparr>role = str ''user'', content = ''a\<newline>{"x":1}''\<rparr>]
     = Inr \<lparr>response_text = str ''plan'',
            toolResults = Some [JObj [(''name'', JStr ''search''), (''hits'', JNum ''3'')], JObj [(''name'', JStr [])]]\<rparr>
   \<and> response_status (handler example_env (example_request [])) = Some 200
   \<and> at (elements (response_at (handler example_env (example_request [])) [''result'', ''artifacts'']) ! 1) [''name'']
     = Some (JStr ''ToolResult'')\<close>
proof -
  have \<open>generate_calls (handler example_env (example_request []))
     = [[\<lparr>role = str ''user'', content = ''a\<newline>{"x":1}''\<rparr>]]\<close>
    by code_simp
  moreover have \<open>planner [\<lparr>role = str ''user'', content = ''a\<newline>{"x":1}''\<rparr>]
     = Inr \<lparr>response_text = str ''plan'',
            toolResults = Some [JObj [(''name'', JStr ''search''), (''hits'', JNum ''3'')], JObj [(''name'', JStr [])]]\<rparr>\<close>
    by (simp add: planner_def)
  moreover have "response_status (handler example_env (example_request [])) = Some 200"
    by code_simp
  moreover have "at (elements (response_at (handler example_env (example_request [])) [''result'', ''artifacts'']) ! 1) [''name'']
     = Some (JStr ''ToolResult'')"
    by code_simp
  ultimately show ?thesis by blast
qed

text \<open>
  C2, as amended. In every successful response \<^verbatim>\<open>result.history\<close> has exactly two
  entries. The first re-emits the inbound message: its role and parts, the inbound
  \<^verbatim>\<open>messageId\<close> when that is truthy and otherwise (absent, or falsy such as the empty
  string) the value of the last call of \<^verbatim>\<open>randomUUID\<close>, and the resolved task id. The
  second is the agent's message: role \<^verbatim>\<open>"agent"\<close>, the single text part holding the
  agent's reply text (the empty string when the agent produced none), the value of
  its own call of \<^verbatim>\<open>randomUUID\<close> as \<^verbatim>\<open>messageId\<close>, and the same task id.
\<close>

theorem history_entries:
  assumes "response_status (handler c req) = Some 200"
  shows "\<exists>agent conv response h1 h2.
      getAgent c (agentId req) = Inr (Some agent)
    \<and> generate_calls (handler c req) = [conv]
    \<and> agent conv = Inr response
    \<and> response_at (handler c req) [''result'', ''history''] = Some (JArr [h1, h2])
    \<and> at h1 [''kind''] = str ''message''
    \<and> at h1 [''role''] = get_opt (inbound_message req) ''role''
    \<and> at h1 [''parts''] = get_opt (inbound_message req) ''parts''
    \<and> at h1 [''messageId''] =
         (if truthy (get_opt (inbound_message req) ''messageId'') then get_opt (inbound_message req) ''messageId''
          else str (randomUUID c (Suc (uuid_calls (get_opt (inbound_message req) ''taskId'')
                 + uuid_calls (get_opt (inbound_message req) ''contextId'')) + length (tool_results response))))
    \<and> at h1 [''taskId''] = response_at (handler c req) [''result'', ''id'']
    \<and> at h2 [''kind''] = str ''message''
    \<and> at h2 [''role''] = str ''agent''
    \<and> at h2 [''parts''] = Some (JArr [obj [(''kind'', str ''text''), (''text'', js_or (response_text response) (str []))]])
    \<and> at h2 [''messageId''] =
         str (randomUUID c (uuid_calls (get_opt (inbound_message req) ''taskId'')
                + uuid_calls (get_opt (inbound_message req) ''contextId'')))
    \<and> at h2 [''taskId''] = response_at (handler c req) [''result'', ''id'']"
proof -
  from handler_success [OF assms] obtain agent s response arts T C mid rm where
    a: "getAgent c (agentId req) = Inr (Some agent)"
    and g: "generate_calls (handler c req) = [[\<lparr>role = get_opt (inbound_message req) ''role'', content = s\<rparr>]]"
    and r: "agent [\<lparr>role = get_opt (inbound_message req) ''role'', content = s\<rparr>] = Inr response"
    and ba: "build_artifacts c (Suc (uuid_calls (get_opt (inbound_message req) ''taskId'')
            + uuid_calls (get_opt (inbound_message req) ''contextId''))) (toolResults response) = Inr arts"
    and mid: "mid = (if truthy (get_opt (inbound_message req) ''messageId'') then get_opt (inbound_message req) ''messageId''
          else str (randomUUID c (Suc (uuid_calls (get_opt (inbound_message req) ''taskId'')
                 + uuid_calls (get_opt (inbound_message req) ''contextId'')) + length arts)))"
    and rm: "rm = str (randomUUID c (uuid_calls (get_opt (inbound_message req) ''taskId'')
                + uuid_calls (get_opt (inbound_message req) ''contextId'')))"
    and ret: "returned (handler c req) = Inr \<lparr>status = 200,
        body = a2aResponse c (body_member req ''id'') T C (js_or (response_text response) (str [])) rm arts
                 (history (inbound_message req) mid T (js_or (response_text response) (str [])) rm)\<rparr>"
    by blast
  have len: "length arts = length (tool_results response)"
    using build_artifacts_Inr(1) [OF ba] .
  from at_history [of "inbound_message req" mid T "js_or (response_text response) (str [])" rm]
  obtain h1 h2 where h: "history (inbound_message req) mid T (js_or (response_text response) (str [])) rm = [h1, h2]"
    and h1: "at h1 [''kind''] = str ''message''" "at h1 [''role''] = get_opt (inbound_message req) ''role''"
      "at h1 [''parts''] = get_opt (inbound_message req) ''parts''" "at h1 [''messageId''] = mid"
      "at h1 [''taskId''] = T"
    and h2: "at h2 [''kind''] = str ''message''" "at h2 [''role''] = str ''agent''"
      "at h2 [''parts''] = Some (JArr [obj [(''kind'', str ''text''), (''text'', js_or (response_text response) (str []))]])"
      "at h2 [''messageId''] = rm" "at h2 [''taskId''] = T"
    by blast
  from ret h have hist: "response_at (handler c req) [''result'', ''history''] = Some (JArr [h1, h2])"
    and tid: "response_at (handler c req) [''result'', ''id''] = T"
    by (simp_all add: response_at_def at_a2aResponse)
  show ?thesis
    using a g r hist tid h1 h2 mid rm len by (intro exI [of _ agent] exI [of _ response] exI [of _ h1] exI [of _ h2] exI) simp
qed

theorem history_entries_witness:
  "response_status (handler example_env (example_request [(''messageId'', JStr ''m-1'')])) = Some 200
   \<and> length (elements (response_at (handler example_env (example_request [(''messageId'', JStr ''m-1'')]))
        [''result'', ''history''])) = 2
   \<and> at (elements (response_at (handler example_env (example_request [(''messageId'', JStr ''m-1'')]))
        [''result'', ''history'']) ! 0) [''messageId''] = Some (JStr ''m-1'')
   \<and> at (elements (response_at (handler example_env (example_request [(''messageId'', JStr ''m-1'')]))
        [''result'', ''history'']) ! 1) [''role''] = Some (JStr ''agent'')"
proof -
  have ok: "response_status (handler example_env (example_request [(''messageId'', JStr ''m-1'')])) = Some 200"
    by code_simp
  have m: "get_opt (inbound_message (example_request [(''messageId'', JStr ''m-1'')])) ''messageId'' = Some (JStr ''m-1'')"
    by code_simp
  from history_entries [OF ok] ok show ?thesis
    unfolding m by (auto simp: elements_def str_def)
qed

text \<open>
  C2 as stated fails: an inbound message whose \<^verbatim>\<open>messageId\<close> is \<^verbatim>\<open>""\<close> is re-emitted
  with a generated id, not its own.
\<close>

theorem empty_message_id_not_kept:
  "get_opt (inbound_message (example_request [(''messageId'', JStr [])])) ''messageId'' = Some (JStr [])
   \<and> response_status (handler example_env (example_request [(''messageId'', JStr [])])) = Some 200
   \<and> at (elements (response_at (handler example_env (example_request [(''messageId'', JStr [])]))
          [''result'', ''history'']) ! 0) [''messageId'']
     = Some (JStr ''uuid-xxxxx'')"
  by code_simp

subsection \<open>Identifiers that are present but falsy\<close>

lemma falsy_not_uuid:
  "\<not> truthy v \<Longrightarrow> u \<noteq> [] \<Longrightarrow> str u \<noteq> v"
  by (auto simp: str_def)

text \<open>
  C10. In a successful response, a \<^verbatim>\<open>taskId\<close>, \<^verbatim>\<open>contextId\<close> or \<^verbatim>\<open>messageId\<close> of the
  inbound message that is falsy (absent, or present but falsy such as the empty string)
  is replaced by the value of a call of \<^verbatim>\<open>randomUUID\<close>; and, a UUID never being the
  empty string, each of the three is echoed exactly when it is truthy.
\<close>

theorem falsy_identifiers_replaced:
  assumes "response_status (handler c req) = Some 200"
  shows "(\<not> truthy (get_opt (inbound_message req) ''taskId'') \<longrightarrow>
            response_at (handler c req) [''result'', ''id''] = str (randomUUID c 0))
       \<and> (\<not> truthy (get_opt (inbound_message req) ''contextId'') \<longrightarrow>
            response_at (handler c req) [''result'', ''contextId'']
              = str (randomUUID c (uuid_calls (get_opt (inbound_message req) ''taskId''))))
       \<and> (\<not> truthy (get_opt (inbound_message req) ''messageId'') \<longrightarrow>
            at (elements (response_at (handler c req) [''result'', ''history'']) ! 0) [''messageId'']
              = str (randomUUID c (Suc (uuid_calls (get_opt (inbound_message req) ''taskId'')
                       + uuid_calls (get_opt (inbound_message req) ''contextId''))
                     + length (elements (response_at (handler c req) [''result'', ''artifacts''])))))
       \<and> ((\<forall>n. randomUUID c n \<noteq> []) \<longrightarrow>
            (response_at (handler c req) [''result'', ''id''] = get_opt (inbound_message req) ''taskId'')
              = truthy (get_opt (inbound_message req) ''taskId'')
          \<and> (response_at (handler c req) [''result'', ''contextId''] = get_opt (inbound_message req) ''contextId'')
              = truthy (get_opt (inbound_message req) ''contextId'')
          \<and> (at (elements (response_at (handler c req) [''result'', ''history'']) ! 0) [''messageId'']
                = get_opt (inbound_message req) ''messageId'')
              = truthy (get_opt (inbound_message req) ''messageId''))"
proof -
  from handler_success [OF assms] obtain reply arts T C mid rm where
    T: "T = (if truthy (get_opt (inbound_message req) ''taskId'') then get_opt (inbound_message req) ''taskId''
              else str (randomUUID c 0))"
    and C: "C = (if truthy (get_opt (inbound_message req) ''contextId'') then get_opt (inbound_message req) ''contextId''
              else str (randomUUID c (uuid_calls (get_opt (inbound_message req) ''taskId''))))"
    and mid: "mid = (if truthy (get_opt (inbound_message req) ''messageId'') then get_opt (inbound_message req) ''messageId''
          else str (randomUUID c (Suc (uuid_calls (get_opt (inbound_message req) ''taskId'')
                 + uuid_calls (get_opt (inbound_message req) ''contextId'')) + length arts)))"
    and ret: "returned (handler c req) = Inr \<lparr>status = 200,
        body = a2aResponse c (body_member req ''id'') T C reply rm arts (history (inbound_message req) mid T reply rm)\<rparr>"
    by blast
  from at_history [of "inbound_message req" mid T reply rm]
  obtain h1 h2 where h: "history (inbound_message req) mid T reply rm = [h1, h2]"
    and h1: "at h1 [''messageId''] = mid"
    by blast
  from ret h have hist: "elements (response_at (handler c req) [''result'', ''history'']) = [h1, h2]"
    and arts: "elements (response_at (handler c req) [''result'', ''artifacts'']) = arts"
    and tid: "response_at (handler c req) [''result'', ''id''] = T"
    and cid: "response_at (handler c req) [''result'', ''contextId''] = C"
    by (simp_all add: response_at_def at_a2aResponse elements_def)
  show ?thesis
    unfolding hist arts tid cid using h1 T C mid
    by (auto dest: falsy_not_uuid)
qed


theorem falsy_identifiers_replaced_witness:
  "response_status (handler example_env
       (example_request [(''taskId'', JStr []), (''contextId'', JStr []), (''messageId'', JStr [])])) = Some 200
   \<and> \<not> truthy (get_opt (inbound_message
       (example_request [(''taskId'', JStr []), (''contextId'', JStr []), (''messageId'', JStr [])])) ''taskId'')
   \<and> \<not> truthy (get_opt (inbound_message
       (example_request [(''taskId'', JStr []), (''contextId'', JStr []), (''messageId'', JStr [])])) ''contextId'')
   \<and> \<not> truthy (get_opt (inbound_message
       (example_request [(''taskId'', JStr []), (''contextId'', JStr []), (''messageId'', JStr [])])) ''messageId'')
   \<and> (\<forall>n. randomUUID example_env n \<noteq> [])
   \<and> response_at (handler example_env
         (example_request [(''taskId'', JStr []), (''contextId'', JStr []), (''messageId'', JStr [])]))
        [''result'', ''id''] = Some (JStr ''uuid-'')
   \<and> response_at (handler example_env
         (example_request [(''taskId'', JStr []), (''contextId'', JStr []), (''messageId'', JStr [])]))
        [''result'', ''contextId''] = Some (JStr ''uuid-x'')
   \<and> at (elements (response_at (handler example_env
         (example_request [(''taskId'', JStr []), (''contextId'', JStr []), (''messageId'', JStr [])]))
        [''result'', ''history'']) ! 0) [''messageId''] = Some (JStr ''uuid-xxxxx'')
   \<and> response_at (handler example_env
         (example_request [(''taskId'', JStr []), (''contextId'', JStr []), (''messageId'', JStr [])]))
        [''result'', ''id'']
       \<noteq> get_opt (inbound_message
         (example_request [(''taskId'', JStr []), (''contextId'', JStr []), (''messageId'', JStr [])])) ''taskId''"
proof -
  let ?req = "example_request [(''taskId'', JStr []), (''contextId'', JStr []), (''messageId'', JStr [])]"
  have ok: "response_status (handler example_env ?req) = Some 200"
    by code_simp
  have t: "get_opt (inbound_message ?req) ''taskId'' = Some (JStr [])"
    and x: "get_opt (inbound_message ?req) ''contextId'' = Some (JStr [])"
    and m: "get_opt (inbound_message ?req) ''messageId'' = Some (JStr [])"
    by code_simp+
  have ne: "\<forall>n. randomUUID example_env n \<noteq> []"
    by (simp add: example_env_def example_uuid_def)
  have n: "length (elements (response_at (handler example_env ?req) [''result'', ''artifacts''])) = 2"
    by code_simp
  have u: "randomUUID example_env 0 = ''uuid-''" "randomUUID example_env (Suc 0) = ''uuid-x''"
    "randomUUID example_env (Suc (Suc (Suc (Suc (Suc 0))))) = ''uuid-xxxxx''"
    by (simp_all add: example_env_def example_uuid_def)
  from falsy_identifiers_replaced [OF ok] ne show ?thesis
    unfolding t x m n by (simp add: ok ne uuid_calls_def u str_def)
qed

subsection \<open>Rejected requests\<close>

text \<open>
  C5, as amended. For a request whose envelope and method are accepted and whose agent
  is found: when \<^verbatim>\<open>params.message\<close> is falsy or not an object, or its kind is not
  \<^verbatim>\<open>"message"\<close>, or its role or its parts are falsy (absent, \<^verbatim>\<open>null\<close>, \<^verbatim>\<open>false\<close>, \<^verbatim>\<open>0\<close>,
  \<^verbatim>\<open>""\<close>), the response is HTTP 400 with error code -32602 and the agent is not called.
  A message of kind \<^verbatim>\<open>"message"\<close> with a role and an empty parts array is not
  rejected: the agent is called with the empty string as content.
\<close>

theorem message_validation:
  assumes "\<not> bad_envelope req" and "\<not> wrong_method req"
    and "getAgent c (agentId req) = Inr (Some agent)"
  shows "(bad_message req \<longrightarrow>
            response_status (handler c req) = Some 400
          \<and> response_at (handler c req) [''error'', ''code''] = Some (JNum ''-32602'')
          \<and> generate_calls (handler c req) = [])
       \<and> (get_opt (inbound_message req) ''kind'' = str ''message''
            \<and> truthy (get_opt (inbound_message req) ''role'')
            \<and> get_opt (inbound_message req) ''parts'' = Some (JArr []) \<longrightarrow>
          \<not> bad_message req
          \<and> generate_calls (handler c req) = [[\<lparr>role = get_opt (inbound_message req) ''role'', content = []\<rparr>]])"
proof (intro conjI impI)
  assume bad: "bad_message req"
  from validate_message(1) [OF assms bad] obtain msg where
    v: "validate c req = (body_member req ''id'', Responded (rpc_error 400 (body_member req ''id'') ''-32602'' msg))"
    by blast
  note h = handler_Responded [OF v]
  show "response_status (handler c req) = Some 400"
    by (simp add: h response_status_def at_rpc_error)
  show "response_at (handler c req) [''error'', ''code''] = Some (JNum ''-32602'')"
    by (simp add: h response_at_def at_rpc_error)
  show "generate_calls (handler c req) = []"
    by (simp add: h)
next
  assume e: "get_opt (inbound_message req) ''kind'' = str ''message''
            \<and> truthy (get_opt (inbound_message req) ''role'')
            \<and> get_opt (inbound_message req) ''parts'' = Some (JArr [])"
  then have obj: "truthy (inbound_message req) \<and> typeof_object (inbound_message req)"
    by (cases "(inbound_message req, ''kind'')" rule: get_opt.cases) (auto simp: str_def)
  with e show good: "\<not> bad_message req"
    by (simp add: bad_message_def)
  have "mastra_content (get_opt (inbound_message req) ''parts'') = Inr []"
    using e by (simp add: mastra_content_def array_join_def join_strings_def)
  from respond_called [OF this] handler_Accepted(1) [OF validate_message(2) [OF assms good]]
  show "generate_calls (handler c req) = [[\<lparr>role = get_opt (inbound_message req) ''role'', content = []\<rparr>]]"
    by simp
qed

theorem message_validation_witness:
  "\<not> bad_envelope (send ''plannerAgent'' (JObj [(''kind'', JStr ''message''), (''role'', JStr ''user'')]))
   \<and> \<not> wrong_method (send ''plannerAgent'' (JObj [(''kind'', JStr ''message''), (''role'', JStr ''user'')]))
   \<and> getAgent example_env (agentId (send ''plannerAgent'' (JObj [(''kind'', JStr ''message''), (''role'', JStr ''user'')])))
       = Inr (Some planner)
   \<and> bad_message (send ''plannerAgent'' (JObj [(''kind'', JStr ''message''), (''role'', JStr ''user'')]))
   \<and> response_status (handler example_env (send ''plannerAgent'' (JObj [(''kind'', JStr ''message''), (''role'', JStr ''user'')])))
       = Some 400
   \<and> response_at (handler example_env (send ''plannerAgent'' (JObj [(''kind'', JStr ''message''), (''role'', JStr ''user'')])))
        [''error'', ''code''] = Some (JNum ''-32602'')
   \<and> generate_calls (handler example_env (send ''plannerAgent'' (JObj [(''kind'', JStr ''message''), (''role'', JStr ''user'')])))
       = []"
proof -
  let ?req = "send ''plannerAgent'' (JObj [(''kind'', JStr ''message''), (''role'', JStr ''user'')])"
  have e: "\<not> bad_envelope ?req" and m: "\<not> wrong_method ?req" and b: "bad_message ?req"
    by code_simp+
  have a: "getAgent example_env (agentId ?req) = Inr (Some planner)"
    by (simp add: example_env_def send_def)
  from message_validation [OF e m a] e m a b show ?thesis
    by blast
qed

text \<open>
  C5 as stated fails: a message carrying an empty parts sequence is answered with a
  completed task, not with an error.
\<close>

theorem empty_parts_accepted:
  "get_opt (inbound_message (send ''plannerAgent'' (user_message [] []))) ''parts'' = Some (JArr [])
   \<and> response_status (handler example_env (send ''plannerAgent'' (user_message [] []))) = Some 200
   \<and> response_at (handler example_env (send ''plannerAgent'' (user_message [] []))) [''error''] = None
   \<and> generate_calls (handler example_env (send ''plannerAgent'' (user_message [] [])))
       = [[\<lparr>role = Some (JStr ''user''), content = []\<rparr>]]"
  by code_simp

text \<open>
  C7. A request that fails a validation check (bad envelope, wrong method, unknown
  agent, missing or malformed message) never reaches \<^verbatim>\<open>agent.generate\<close>; and whenever
  the handler answers 400 or 404, the only statuses of the validation errors, the
  agent was not called and nothing was written to the console.
\<close>

theorem validation_failure_before_agent:
  "(bad_envelope req \<or> wrong_method req \<or> unknown_agent c req \<or> bad_message req \<longrightarrow>
      generate_calls (handler c req) = [])
   \<and> (response_status (handler c req) = Some 400 \<or> response_status (handler c req) = Some 404 \<longrightarrow>
      generate_calls (handler c req) = [] \<and> console (handler c req) = [])"
proof -
  obtain rid v where v: "validate c req = (rid, v)" by (cases "validate c req")
  show ?thesis
  proof (cases v)
    case (Responded r)
    with v handler_Responded [of c req rid r] show ?thesis by simp
  next
    case (Raised e)
    with v handler_Raised [of c req rid e] show ?thesis by simp
  next
    case (Accepted agent message configuration)
    with v have a: "validate c req = (rid, Accepted agent message configuration)" by simp
    note f = validate_Accepted [OF a]
    have "\<not> bad_envelope req" "\<not> wrong_method req" "\<not> unknown_agent c req" "\<not> bad_message req"
      using f by (simp_all add: bad_envelope_def wrong_method_def unknown_agent_def bad_message_def)
    with handler_Accepted(2,3) [OF a] show ?thesis by simp
  qed
qed

theorem validation_failure_before_agent_witness:
  "bad_message (send ''plannerAgent'' (JObj [(''kind'', JStr ''message''), (''role'', JStr ''user'')]))
   \<and> response_status (handler example_env (send ''plannerAgent'' (JObj [(''kind'', JStr ''message''), (''role'', JStr ''user'')])))
       = Some 400
   \<and> generate_calls (handler example_env (send ''plannerAgent'' (JObj [(''kind'', JStr ''message''), (''role'', JStr ''user'')])))
       = []
   \<and> console (handler example_env (send ''plannerAgent'' (JObj [(''kind'', JStr ''message''), (''role'', JStr ''user'')])))
       = []"
proof -
  let ?req = "send ''plannerAgent'' (JObj [(''kind'', JStr ''message''), (''role'', JStr ''user'')])"
  have b: "bad_message ?req"
    and s: "response_status (handler example_env ?req) = Some 400"
    by code_simp+
  from validation_failure_before_agent [of ?req example_env] b s show ?thesis
    by blast
qed

subsection \<open>The catch block\<close>

text \<open>
  What the catch makes of a value raised in the \<^verbatim>\<open>try\<close> block, when that value is not
  \<^verbatim>\<open>undefined\<close> or \<^verbatim>\<open>null\<close>; and that the handler throws exactly when it is.
\<close>

lemma try_block_requestId:
  "fst (try_block c req) =
     (case json_body req of
        Inl e \<Rightarrow> Some JNull
      | Inr b \<Rightarrow> if b = JNull then Some JNull else get_opt (Some b) ''id'')"
  by (auto simp: try_block_def validate_def Let_def
      split: sum.splits option.splits prod.splits validation.splits)

lemma failure_response:
  assumes "try_block c req = (rid, Inl e, calls, logged)" and "get_prop e ''message'' = Inr d"
  shows "response_status (handler c req) = Some 500"
    and "response_at (handler c req) [''error'', ''code''] = Some (JNum ''-32603'')"
    and "response_at (handler c req) [''error'', ''data'', ''details''] = d"
    and "response_at (handler c req) [''id''] = rid"
    and "generate_calls (handler c req) = calls"
  using assms
  by (cases rid; cases d; simp add: handler_def response_status_def response_at_def obj_def str_def)+

lemma throws_iff:
  "throws (handler c req) =
     (\<exists>rid e calls logged. try_block c req = (rid, Inl e, calls, logged) \<and> (e = None \<or> e = Some JNull))"
proof -
  obtain rid res calls logged where t: "try_block c req = (rid, res, calls, logged)"
    by (cases "try_block c req") auto
  show ?thesis
  proof (cases res)
    case (Inr r)
    with t show ?thesis by (simp add: handler_def throws_def)
  next
    case (Inl e)
    with t show ?thesis
      by (cases "(e, ''message'')" rule: get_prop.cases) (auto simp: handler_def throws_def)
  qed
qed

text \<open>
  C6, the code at a failing input: the agent rejects with \<^verbatim>\<open>undefined\<close> during the
  invocation, and the handler returns no response at all, so no HTTP 500 with code
  -32603 either.
\<close>

theorem undefined_rejection_gets_no_error_response:
  \<open>generate_calls (handler example_env (send ''rejectingAgent'' (user_message text_a_data_x [])))
     = [[\<lparr>role = Some (JStr ''user''), content = ''a\<newline>{"x":1}''\<rparr>]]
   \<and> rejecting [\<lparr>role = Some (JStr ''user''), content = ''a\<newline>{"x":1}''\<rparr>] = Inl None
   \<and> response_status (handler example_env (send ''rejectingAgent'' (user_message text_a_data_x []))) = None
   \<and> response_at (handler example_env (send ''rejectingAgent'' (user_message text_a_data_x []))) [''error'', ''code'']
     = None\<close>
proof -
  have \<open>rejecting [\<lparr>role = Some (JStr ''user''), content = ''a\<newline>{"x":1}''\<rparr>] = Inl None\<close>
    by (simp add: rejecting_def)
  moreover have \<open>generate_calls (handler example_env (send ''rejectingAgent'' (user_message text_a_data_x [])))
     = [[\<lparr>role = Some (JStr ''user''), content = ''a\<newline>{"x":1}''\<rparr>]]\<close>
    by code_simp
  moreover have "response_status (handler example_env (send ''rejectingAgent'' (user_message text_a_data_x []))) = None"
    by code_simp
  moreover have "response_at (handler example_env (send ''rejectingAgent'' (user_message text_a_data_x []))) [''error'', ''code'']
     = None"
    by code_simp
  ultimately show ?thesis by blast
qed

text \<open>
  C8, the code at a failing input: when the agent rejects with \<^verbatim>\<open>undefined\<close>, the
  catch block logs the value and then throws while reading its \<^verbatim>\<open>message\<close>.
\<close>

theorem handler_throws_on_undefined_rejection:
  "throws (handler example_env (send ''rejectingAgent'' (user_message text_a_data_x [])))
   \<and> console (handler example_env (send ''rejectingAgent'' (user_message text_a_data_x [])))
       = [ConsoleError ''A2A Agent Route Error:'' None]"
  by code_simp

end
